theory Spec2Isabelle
  imports Main "HOL-Library.Word" "HOL-Library.AList" "HOL-Library.Sublist" "HOL-Library.Multiset"
begin

unbundle bit_operations_syntax

section \<open>The file backend of the memory store\<close>

text \<open>
  This theory embeds \<^verbatim>\<open>src/backends/FileBackend.impl.ts\<close> (class \<^verbatim>\<open>FileBackendImpl\<close>):
  \<^verbatim>\<open>store\<close>, \<^verbatim>\<open>retrieve\<close>, \<^verbatim>\<open>update\<close>, \<^verbatim>\<open>append\<close>, \<^verbatim>\<open>remove\<close>, \<^verbatim>\<open>list\<close>, \<^verbatim>\<open>getStats\<close>
  and \<^verbatim>\<open>saveMetadata\<close>. The class works on three pieces of state, all explicit here:
  the file system, the in-memory \<^verbatim>\<open>Map\<close> from file name to a metadata object, and the
  heap that holds those objects (the methods hand out references to them, and
  \<^verbatim>\<open>retrieve\<close> mutates them in place).

  What the methods call from Node is modelled first: the text of strings (bytes of the
  UTF-8 encoding), \<^verbatim>\<open>crypto.createHash('sha256')\<close>, \<^verbatim>\<open>JSON.stringify\<close>, \<^verbatim>\<open>path.join\<close>,
  \<^verbatim>\<open>path.dirname\<close>, \<^verbatim>\<open>path.relative\<close> and the calls of \<^verbatim>\<open>fs/promises\<close> on a POSIX file
  tree. Calls to \<^verbatim>\<open>console.log\<close> and \<^verbatim>\<open>console.error\<close> have no effect on any state a
  method reads and are left out. Methods are \<^verbatim>\<open>async\<close>; every \<^verbatim>\<open>await\<close> is taken to
  complete before the next statement runs and calls do not overlap.
\<close>

subsection \<open>Text\<close>

text \<open>
  A \<^typ>\<open>string\<close> is the UTF-8 encoding of a JavaScript string, one \<^typ>\<open>char\<close> per byte;
  writing a file with encoding \<^verbatim>\<open>'utf-8'\<close> and reading it back is the identity on such
  text (strings with unpaired surrogates have no such encoding and are outside the model).
  \<^verbatim>\<open>s.length\<close> counts UTF-16 code units, \<^verbatim>\<open>stats.size\<close> counts bytes.
\<close>

definition js_length :: "string \<Rightarrow> nat" where
  "js_length s =
     sum_list (map (\<lambda>c. let b = (of_char c :: nat)
                         in if b < 128 then 1 else if b < 192 then 0 else if b < 240 then 1 else 2) s)"


text \<open>\<^verbatim>\<open>s.startsWith('.')\<close>.\<close>

definition startsWith_dot :: "string \<Rightarrow> bool" where
  "startsWith_dot s = (case s of [] \<Rightarrow> False | c # _ \<Rightarrow> c = CHR ''.'')"

fun join_sep :: "string \<Rightarrow> string list \<Rightarrow> string" where
  "join_sep sep [] = []"
| "join_sep sep [p] = p"
| "join_sep sep (p # ps) = p @ sep @ join_sep sep ps"

fun split_sep :: "char \<Rightarrow> string \<Rightarrow> string list" where
  "split_sep sep [] = [[]]"
| "split_sep sep (c # cs) =
     (if c = sep then [] # split_sep sep cs
      else (case split_sep sep cs of [] \<Rightarrow> [[c]] | s # ss \<Rightarrow> (c # s) # ss))"

definition digit_char :: "nat \<Rightarrow> char" where
  "digit_char n = ''0123456789abcdef'' ! (n mod 16)"

function decimal :: "nat \<Rightarrow> string" where
  "decimal n = (if n < 10 then [digit_char n] else decimal (n div 10) @ [digit_char (n mod 10)])"
  by pat_completeness auto
termination
  by (relation "measure id") auto

definition pad_left :: "nat \<Rightarrow> string \<Rightarrow> string" where
  "pad_left k s = replicate (k - length s) CHR ''0'' @ s"

subsection \<open>SHA-256\<close>

text \<open>
  \<^verbatim>\<open>crypto.createHash('sha256').update(content).digest('hex')\<close>: the SHA-256 digest
  (FIPS 180-4) of the bytes of \<^verbatim>\<open>content\<close>, as 64 lower-case hexadecimal digits.
\<close>

definition hex_value :: "char \<Rightarrow> nat" where
  "hex_value c = (let b = (of_char c :: nat) in if 97 \<le> b then b - 87 else b - 48)"

definition words_of_hex :: "string \<Rightarrow> 32 word list" where
  "words_of_hex s =
     map (\<lambda>h. of_nat (foldl (\<lambda>n c. 16 * n + hex_value c) 0 h)) (split_sep CHR '' '' s)"

text \<open>The round constants and the initial hash value, as the standard prints them.\<close>

definition sha256_k :: "32 word list" where
  "sha256_k = words_of_hex
     (''428a2f98 71374491 b5c0fbcf e9b5dba5 3956c25b 59f111f1 923f82a4 ab1c5ed5 '' @
      ''d807aa98 12835b01 243185be 550c7dc3 72be5d74 80deb1fe 9bdc06a7 c19bf174 '' @
      ''e49b69c1 efbe4786 0fc19dc6 240ca1cc 2de92c6f 4a7484aa 5cb0a9dc 76f988da '' @
      ''983e5152 a831c66d b00327c8 bf597fc7 c6e00bf3 d5a79147 06ca6351 14292967 '' @
      ''27b70a85 2e1b2138 4d2c6dfc 53380d13 650a7354 766a0abb 81c2c92e 92722c85 '' @
      ''a2bfe8a1 a81a664b c24b8b70 c76c51a3 d192e819 d6990624 f40e3585 106aa070 '' @
      ''19a4c116 1e376c08 2748774c 34b0bcb5 391c0cb3 4ed8aa4a 5b9cca4f 682e6ff3 '' @
      ''748f82ee 78a5636f 84c87814 8cc70208 90befffa a4506ceb bef9a3f7 c67178f2'')"

definition sha256_h0 :: "32 word list" where
  "sha256_h0 = words_of_hex
     ''6a09e667 bb67ae85 3c6ef372 a54ff53a 510e527f 9b05688c 1f83d9ab 5be0cd19''"

definition rotr :: "nat \<Rightarrow> 32 word \<Rightarrow> 32 word" where
  "rotr n x = word_rotr n x"

definition be_bytes :: "nat \<Rightarrow> nat \<Rightarrow> nat list" where
  "be_bytes k n = map (\<lambda>i. (n div 256 ^ (k - 1 - i)) mod 256) [0..<k]"

definition sha256_pad :: "nat list \<Rightarrow> nat list" where
  "sha256_pad bs =
     (let l = length bs; z = (119 - l mod 64) mod 64
      in bs @ [128] @ replicate z 0 @ be_bytes 8 (8 * l))"

fun be_words :: "nat list \<Rightarrow> 32 word list" where
  "be_words (a # b # c # d # bs) = of_nat (((a * 256 + b) * 256 + c) * 256 + d) # be_words bs"
| "be_words _ = []"

fun chunks :: "nat \<Rightarrow> 'a list \<Rightarrow> 'a list list" where
  "chunks n [] = []"
| "chunks n (x # xs) = take n (x # xs) # chunks n (drop (n - 1) xs)"

fun schedule :: "nat \<Rightarrow> 32 word list \<Rightarrow> 32 word list" where
  "schedule 0 ws = ws"
| "schedule (Suc n) ws =
     (let t = length ws;
          w15 = ws ! (t - 15); w2 = ws ! (t - 2);
          s0 = rotr 7 w15 XOR rotr 18 w15 XOR drop_bit 3 w15;
          s1 = rotr 17 w2 XOR rotr 19 w2 XOR drop_bit 10 w2
      in schedule n (ws @ [ws ! (t - 16) + s0 + ws ! (t - 7) + s1]))"

fun sha256_round :: "32 word list \<Rightarrow> 32 word \<times> 32 word \<Rightarrow> 32 word list" where
  "sha256_round [a, b, c, d, e, f, g, h] (k, w) =
     (let s1 = rotr 6 e XOR rotr 11 e XOR rotr 25 e;
          ch = (e AND f) XOR (NOT e AND g);
          t1 = h + s1 + ch + k + w;
          s0 = rotr 2 a XOR rotr 13 a XOR rotr 22 a;
          mj = (a AND b) XOR (a AND c) XOR (b AND c);
          t2 = s0 + mj
      in [t1 + t2, a, b, c, d + t1, e, f, g])"
| "sha256_round st _ = st"

definition sha256_block :: "32 word list \<Rightarrow> 32 word list \<Rightarrow> 32 word list" where
  "sha256_block st blk = map2 (+) st (foldl sha256_round st (zip sha256_k (schedule 48 blk)))"

definition hex_byte :: "nat \<Rightarrow> string" where
  "hex_byte n = [digit_char (n div 16), digit_char n]"

definition sha256_hex :: "string \<Rightarrow> string" where
  "sha256_hex s =
     concat (map (\<lambda>w. concat (map hex_byte (be_bytes 4 (unat w))))
       (foldl sha256_block sha256_h0 (chunks 16 (be_words (sha256_pad (map of_char s))))))"

subsection \<open>Entry metadata and the index file\<close>

text \<open>
  \<^verbatim>\<open>interface FileMetadata\<close>. \<^verbatim>\<open>lastUpdated\<close> is a \<^verbatim>\<open>Date\<close>, here its time value
  (milliseconds since the epoch); \<^verbatim>\<open>accessCount\<close> and \<^verbatim>\<open>size\<close> are JavaScript numbers
  that only ever hold natural numbers (exact below \<open>2^53\<close>, which no run of the
  program reaches).
\<close>

record FileMetadata =
  filePath :: string
  contentHash :: string
  lastUpdated :: nat
  accessCount :: nat
  size' :: nat

text \<open>\<^verbatim>\<open>Date.prototype.toISOString\<close> (years 1970 to 9999).\<close>

definition toISOString :: "nat \<Rightarrow> string" where
  "toISOString ms =
     (let days = ms div 86400000; r = ms mod 86400000;
          z = days + 719468; era = z div 146097; doe = z mod 146097;
          yoe = (doe - doe div 1460 + doe div 36524 - doe div 146096) div 365;
          doy = doe - (365 * yoe + yoe div 4 - yoe div 100);
          mp = (5 * doy + 2) div 153;
          d = doy - (153 * mp + 2) div 5 + 1;
          m = (if mp < 10 then mp + 3 else mp - 9);
          y = yoe + era * 400 + (if m \<le> 2 then 1 else 0)
      in pad_left 4 (decimal y) @ ''-'' @ pad_left 2 (decimal m) @ ''-'' @ pad_left 2 (decimal d)
         @ ''T'' @ pad_left 2 (decimal (r div 3600000)) @ '':''
         @ pad_left 2 (decimal (r div 60000 mod 60)) @ '':''
         @ pad_left 2 (decimal (r div 1000 mod 60)) @ ''.''
         @ pad_left 3 (decimal (r mod 1000)) @ ''Z'')"

text \<open>The quoting of a string by \<^verbatim>\<open>JSON.stringify\<close>.\<close>

definition json_escape :: "char \<Rightarrow> string" where
  "json_escape c =
     (let b = (of_char c :: nat) in
      if b = 34 then [CHR 0x5C, CHR 0x22]
      else if b = 92 then [CHR 0x5C, CHR 0x5C]
      else if b = 8 then [CHR 0x5C, CHR ''b'']
      else if b = 9 then [CHR 0x5C, CHR ''t'']
      else if b = 10 then [CHR 0x5C, CHR ''n'']
      else if b = 12 then [CHR 0x5C, CHR ''f'']
      else if b = 13 then [CHR 0x5C, CHR ''r'']
      else if b < 32 then [CHR 0x5C, CHR ''u'', CHR ''0'', CHR ''0''] @ hex_byte b
      else [c])"

definition json_quote :: "string \<Rightarrow> string" where
  "json_quote s = [CHR 0x22] @ concat (map json_escape s) @ [CHR 0x22]"

text \<open>
  The own keys of \<^verbatim>\<open>Object.fromEntries(map)\<close> in the order \<^verbatim>\<open>JSON.stringify\<close> visits them:
  keys that are array indices (canonical decimal numerals below \<open>2^32 - 1\<close>) first, in
  ascending numeric order, then the other keys in the order the \<^verbatim>\<open>Map\<close> holds them.
\<close>

definition is_digit :: "char \<Rightarrow> bool" where
  "is_digit c = ((of_char c :: nat) \<ge> 48 \<and> (of_char c :: nat) \<le> 57)"

definition nat_of_decimal :: "string \<Rightarrow> nat" where
  "nat_of_decimal s = foldl (\<lambda>n c. 10 * n + ((of_char c :: nat) - 48)) 0 s"

definition is_array_index :: "string \<Rightarrow> bool" where
  "is_array_index k =
     (k \<noteq> [] \<and> list_all is_digit k \<and> (k = ''0'' \<or> hd k \<noteq> CHR ''0'')
      \<and> length k \<le> 10 \<and> nat_of_decimal k < 4294967295)"

definition object_entries :: "(string \<times> 'a) list \<Rightarrow> (string \<times> 'a) list" where
  "object_entries kvs =
     sort_key (\<lambda>kv. nat_of_decimal (fst kv)) (filter (\<lambda>kv. is_array_index (fst kv)) kvs)
     @ filter (\<lambda>kv. \<not> is_array_index (fst kv)) kvs"

definition json_metadata :: "FileMetadata \<Rightarrow> string" where
  "json_metadata m =
     ''{'' @ [CHR 0x0A]
     @ ''    '' @ json_quote ''filePath'' @ '': '' @ json_quote (filePath m) @ '','' @ [CHR 0x0A]
     @ ''    '' @ json_quote ''contentHash'' @ '': '' @ json_quote (contentHash m) @ '','' @ [CHR 0x0A]
     @ ''    '' @ json_quote ''lastUpdated'' @ '': '' @ json_quote (toISOString (lastUpdated m)) @ '','' @ [CHR 0x0A]
     @ ''    '' @ json_quote ''accessCount'' @ '': '' @ decimal (accessCount m) @ '','' @ [CHR 0x0A]
     @ ''    '' @ json_quote ''size'' @ '': '' @ decimal (size' m) @ [CHR 0x0A]
     @ ''  }''"

text \<open>\<^verbatim>\<open>JSON.stringify(Object.fromEntries(map), null, 2)\<close> for a map of metadata records.\<close>

definition json_stringify :: "(string \<times> FileMetadata) list \<Rightarrow> string" where
  "json_stringify kvs =
     (if kvs = [] then ''{}''
      else ''{'' @ [CHR 0x0A]
           @ join_sep ('','' @ [CHR 0x0A])
               (map (\<lambda>kv. ''  '' @ json_quote (fst kv) @ '': '' @ json_metadata (snd kv))
                    (object_entries kvs))
           @ [CHR 0x0A] @ ''}'')"

subsection \<open>Paths\<close>

text \<open>
  A path is kept in the normal form \<^verbatim>\<open>path.join\<close> produces on POSIX: its segments from
  the root of the file system, with empty segments and \<^verbatim>\<open>.\<close> dropped and \<^verbatim>\<open>..\<close> resolved
  against the segment before it, and a flag for a trailing slash. The working directory
  of the process is taken to be \<^verbatim>\<open>/\<close>, so a relative and an absolute spelling of the store
  root name the same directory. Symbolic links are not modelled.
\<close>

type_synonym path = "string list \<times> bool"

fun normalize_segs :: "string list \<Rightarrow> string list \<Rightarrow> string list" where
  "normalize_segs acc [] = acc"
| "normalize_segs acc (s # ss) =
     (if s = [] \<or> s = ''.'' then normalize_segs acc ss
      else if s = ''..'' then normalize_segs (butlast acc) ss
      else normalize_segs (acc @ [s]) ss)"

definition path_join :: "string list \<Rightarrow> path" where
  "path_join parts =
     (let joined = join_sep ''/'' (filter (\<lambda>p. p \<noteq> []) parts);
          sg = normalize_segs [] (split_sep CHR ''/'' joined)
      in (sg, sg \<noteq> [] \<and> joined \<noteq> [] \<and> last joined = CHR ''/''))"

definition path_dirname :: "path \<Rightarrow> path" where
  "path_dirname p = (butlast (fst p), False)"

definition path_relative :: "string \<Rightarrow> path \<Rightarrow> string" where
  "path_relative from_dir p =
     (let f = fst (path_join [from_dir]); t = fst p;
          k = length (longest_common_prefix f t)
      in join_sep ''/'' (replicate (length f - k) ''..'' @ drop k t))"

subsection \<open>The file system\<close>

text \<open>
  A file tree: regular files with their content, directories with their entries in
  directory order, and entries on which every call fails with a fixed error (a directory
  the process may not search, a device that fails, a full disk under a file to be
  written). The errors are the \<^verbatim>\<open>code\<close> of the \<^verbatim>\<open>ErrnoException\<close> Node rejects with.
  Limits on the length of names and paths are not modelled.
\<close>

datatype errno = ENOENT | ENOTDIR | EISDIR | EEXIST | EACCES | ENOSPC | EIO

datatype node = File string | Dir "(string \<times> node) list" | Fault errno

fun lookup :: "node \<Rightarrow> string list \<Rightarrow> errno + node" where
  "lookup (Fault c) p = Inl c"
| "lookup n [] = Inr n"
| "lookup (File d) (s # ss) = Inl ENOTDIR"
| "lookup (Dir es) (s # ss) =
     (case map_of es s of None \<Rightarrow> Inl ENOENT | Some n \<Rightarrow> lookup n ss)"

fun write_at :: "node \<Rightarrow> string list \<Rightarrow> string \<Rightarrow> errno + node" where
  "write_at (Fault c) p d = Inl c"
| "write_at (File old) [] d = Inr (File d)"
| "write_at (Dir es) [] d = Inl EISDIR"
| "write_at (File old) (s # ss) d = Inl ENOTDIR"
| "write_at (Dir es) (s # ss) d =
     (case map_of es s of
        None \<Rightarrow> if ss = [] then Inr (Dir (AList.update s (File d) es)) else Inl ENOENT
      | Some n \<Rightarrow>
          (case write_at n ss d of
             Inl c \<Rightarrow> Inl c
           | Inr n' \<Rightarrow> Inr (Dir (AList.update s n' es))))"

fun unlink_at :: "node \<Rightarrow> string list \<Rightarrow> errno + node" where
  "unlink_at (Fault c) p = Inl c"
| "unlink_at n [] = Inl EISDIR"
| "unlink_at (File d) (s # ss) = Inl ENOTDIR"
| "unlink_at (Dir es) (s # ss) =
     (case map_of es s of
        None \<Rightarrow> Inl ENOENT
      | Some n \<Rightarrow>
          if ss = [] then
            (case n of
               File d \<Rightarrow> Inr (Dir (AList.delete s es))
             | Dir es' \<Rightarrow> Inl EISDIR
             | Fault c \<Rightarrow> Inl c)
          else
            (case unlink_at n ss of
               Inl c \<Rightarrow> Inl c
             | Inr n' \<Rightarrow> Inr (Dir (AList.update s n' es))))"

fun mkdir_p_at :: "node \<Rightarrow> string list \<Rightarrow> errno + node" where
  "mkdir_p_at (Fault c) p = Inl c"
| "mkdir_p_at (Dir es) [] = Inr (Dir es)"
| "mkdir_p_at (File d) [] = Inl EEXIST"
| "mkdir_p_at (File d) (s # ss) = Inl ENOTDIR"
| "mkdir_p_at (Dir es) (s # ss) =
     (case mkdir_p_at (case map_of es s of None \<Rightarrow> Dir [] | Some n \<Rightarrow> n) ss of
        Inl c \<Rightarrow> Inl c
      | Inr n' \<Rightarrow> Inr (Dir (AList.update s n' es)))"

text \<open>
  The calls of \<^verbatim>\<open>fs/promises\<close> the backend makes, on a tree. A path with a trailing slash
  names a directory: on a regular file it fails with \<^verbatim>\<open>ENOTDIR\<close>, and creating a file
  through it fails with \<^verbatim>\<open>EISDIR\<close> (Linux).
\<close>

definition resolve :: "node \<Rightarrow> path \<Rightarrow> errno + node" where
  "resolve t p =
     (case lookup t (fst p) of
        Inl c \<Rightarrow> Inl c
      | Inr n \<Rightarrow> (case n of File d \<Rightarrow> if snd p then Inl ENOTDIR else Inr n | _ \<Rightarrow> Inr n))"

definition readFile :: "path \<Rightarrow> node \<Rightarrow> errno + string \<times> node" where
  "readFile p t =
     (case resolve t p of
        Inl c \<Rightarrow> Inl c
      | Inr n \<Rightarrow> (case n of File d \<Rightarrow> Inr (d, t) | Dir es \<Rightarrow> Inl EISDIR | Fault c \<Rightarrow> Inl c))"

definition writeFile :: "path \<Rightarrow> string \<Rightarrow> node \<Rightarrow> errno + unit \<times> node" where
  "writeFile p d t =
     (if snd p then
        (case lookup t (fst p) of
           Inr n \<Rightarrow> (case n of File old \<Rightarrow> Inl ENOTDIR | _ \<Rightarrow> Inl EISDIR)
         | Inl c \<Rightarrow>
             (case lookup t (butlast (fst p)) of
                Inr n \<Rightarrow> (case n of Dir es \<Rightarrow> Inl EISDIR | _ \<Rightarrow> Inl c)
              | Inl c' \<Rightarrow> Inl c))
      else (case write_at t (fst p) d of Inl c \<Rightarrow> Inl c | Inr t' \<Rightarrow> Inr ((), t')))"

definition access :: "path \<Rightarrow> node \<Rightarrow> errno + unit \<times> node" where
  "access p t = (case resolve t p of Inl c \<Rightarrow> Inl c | Inr n \<Rightarrow> Inr ((), t))"

text \<open>\<^verbatim>\<open>(await fs.stat(p)).size\<close>; a directory reports the size of one block.\<close>

definition stat_size :: "path \<Rightarrow> node \<Rightarrow> errno + nat \<times> node" where
  "stat_size p t =
     (case resolve t p of
        Inl c \<Rightarrow> Inl c
      | Inr n \<Rightarrow> (case n of File d \<Rightarrow> Inr (length d, t) | Dir es \<Rightarrow> Inr (4096, t) | Fault c \<Rightarrow> Inl c))"

definition unlink :: "path \<Rightarrow> node \<Rightarrow> errno + unit \<times> node" where
  "unlink p t =
     (if snd p then
        (case lookup t (fst p) of
           Inl c \<Rightarrow> Inl c
         | Inr n \<Rightarrow> (case n of File d \<Rightarrow> Inl ENOTDIR | _ \<Rightarrow> Inl EISDIR))
      else (case unlink_at t (fst p) of Inl c \<Rightarrow> Inl c | Inr t' \<Rightarrow> Inr ((), t')))"

text \<open>\<^verbatim>\<open>fs.mkdir(p, { recursive: true })\<close>.\<close>

definition mkdir_recursive :: "path \<Rightarrow> node \<Rightarrow> errno + unit \<times> node" where
  "mkdir_recursive p t = (case mkdir_p_at t (fst p) of Inl c \<Rightarrow> Inl c | Inr t' \<Rightarrow> Inr ((), t'))"

text \<open>
  \<^verbatim>\<open>fs.readdir(p, { withFileTypes: true })\<close>: each entry's name with the answer of its
  \<^verbatim>\<open>isFile()\<close>.
\<close>

definition is_File :: "node \<Rightarrow> bool" where
  "is_File n = (case n of File d \<Rightarrow> True | _ \<Rightarrow> False)"

definition readdir :: "path \<Rightarrow> node \<Rightarrow> errno + (string \<times> bool) list \<times> node" where
  "readdir p t =
     (case resolve t p of
        Inl c \<Rightarrow> Inl c
      | Inr n \<Rightarrow>
          (case n of
             File d \<Rightarrow> Inl ENOTDIR
           | Dir es \<Rightarrow> Inr (map (\<lambda>e. (fst e, is_File (snd e))) es, t)
           | Fault c \<Rightarrow> Inl c))"

subsection \<open>The state of the process\<close>

text \<open>
  An error a method rejects with is either the error of a failed file-system call, which
  carries a \<^verbatim>\<open>code\<close>, or one made by \<^verbatim>\<open>new Error(message)\<close>, which carries none.
\<close>

datatype error = FsError errno | JsError string

type_synonym addr = nat

text \<open>
  \<open>memoryRoot\<close> and \<open>metadata\<close> are the fields of the backend object; \<open>metadata\<close> is the
  \<^verbatim>\<open>Map\<close> in insertion order, holding references into \<open>heap\<close>; \<open>next_addr\<close> is the next
  unused address. \<open>fs\<close> is the disk and \<open>now\<close> the clock \<^verbatim>\<open>new Date()\<close> reads.
  \<open>fs_errors\<close> is a ghost field: the codes of the file-system calls that have failed so
  far, oldest first. No method reads it; it is what "the error of the failed call" refers
  to in the statements below.
\<close>

record world =
  memoryRoot :: string
  metadata :: "(string \<times> addr) list"
  heap :: "addr \<Rightarrow> FileMetadata"
  next_addr :: addr
  fs :: node
  now :: nat
  fs_errors :: "errno list"

text \<open>A method returns its value or the error it rejects with, and the state it leaves.\<close>

type_synonym 'a result = "(error + 'a) \<times> world"

definition ok :: "'a \<Rightarrow> world \<Rightarrow> 'a result" where
  "ok x w = (Inr x, w)"

definition throw :: "error \<Rightarrow> world \<Rightarrow> 'a result" where
  "throw e w = (Inl e, w)"

text \<open>\<^verbatim>\<open>const x = await first; rest\<close>.\<close>

definition and_then :: "'a result \<Rightarrow> ('a \<Rightarrow> world \<Rightarrow> 'b result) \<Rightarrow> 'b result" where
  "and_then r k = (case fst r of Inl e \<Rightarrow> (Inl e, snd r) | Inr x \<Rightarrow> k x (snd r))"

text \<open>\<^verbatim>\<open>try { body } catch (error) { handler }\<close>.\<close>

definition try_catch :: "'a result \<Rightarrow> (error \<Rightarrow> world \<Rightarrow> 'a result) \<Rightarrow> 'a result" where
  "try_catch r h = (case fst r of Inl e \<Rightarrow> h e (snd r) | Inr x \<Rightarrow> (Inr x, snd r))"

definition fs_call :: "(node \<Rightarrow> errno + 'a \<times> node) \<Rightarrow> world \<Rightarrow> 'a result" where
  "fs_call f w =
     (case f (fs w) of
        Inl c \<Rightarrow> (Inl (FsError c), w\<lparr>fs_errors := fs_errors w @ [c]\<rparr>)
      | Inr r \<Rightarrow> (Inr (fst r), w\<lparr>fs := snd r\<rparr>))"

text \<open>An object literal: a new object on the heap, and the reference to it.\<close>

definition new_object :: "FileMetadata \<Rightarrow> world \<Rightarrow> addr result" where
  "new_object m w = (Inr (next_addr w), w\<lparr>heap := (heap w)(next_addr w := m), next_addr := next_addr w + 1\<rparr>)"

text \<open>\<^verbatim>\<open>array.sort(cmp)\<close>: a stable sort; \<open>cmp a b > 0\<close> puts \<open>a\<close> after \<open>b\<close>.\<close>

fun insert_by :: "('a \<Rightarrow> 'a \<Rightarrow> int) \<Rightarrow> 'a \<Rightarrow> 'a list \<Rightarrow> 'a list" where
  "insert_by cmp x [] = [x]"
| "insert_by cmp x (y # ys) = (if cmp x y \<le> 0 then x # y # ys else y # insert_by cmp x ys)"

definition js_sort :: "('a \<Rightarrow> 'a \<Rightarrow> int) \<Rightarrow> 'a list \<Rightarrow> 'a list" where
  "js_sort cmp xs = foldr (insert_by cmp) xs []"

subsection \<open>FileBackendImpl\<close>

text \<open>The constructor's \<^verbatim>\<open>this.metadataFile = path.join(memoryRoot, '.metadata.json')\<close>.\<close>

definition metadataFile :: "world \<Rightarrow> path" where
  "metadataFile w = path_join [memoryRoot w, ''.metadata.json'']"

text \<open>The entries of the \<^verbatim>\<open>Map\<close> with the objects they refer to: the in-memory index.\<close>

definition index_of :: "world \<Rightarrow> (string \<times> FileMetadata) list" where
  "index_of w = map (\<lambda>kv. (fst kv, heap w (snd kv))) (metadata w)"

text \<open>
  \<^verbatim>\<open>saveMetadata\<close>: writes \<^verbatim>\<open>JSON.stringify(Object.fromEntries(this.metadata), null, 2)\<close>
  to the index file.
\<close>

definition saveMetadata :: "world \<Rightarrow> unit result" where
  "saveMetadata w = fs_call (writeFile (metadataFile w) (json_stringify (index_of w))) w"

text \<open>
  \<^verbatim>\<open>store(filename, content, category = 'system')\<close>. The \<^verbatim>\<open>catch\<close> logs and rethrows.
\<close>

definition store :: "string \<Rightarrow> string \<Rightarrow> string \<Rightarrow> world \<Rightarrow> addr result" where
  "store filename content category w =
     (let file = path_join [memoryRoot w, category, filename] in
      try_catch
        (and_then (fs_call (mkdir_recursive (path_dirname file)) w) (\<lambda>_ w.
         and_then (fs_call (writeFile file content) w) (\<lambda>_ w.
         and_then (fs_call (stat_size file) w) (\<lambda>stats_size w.
         and_then (new_object
                     \<lparr>filePath = path_relative (memoryRoot w) file,
                      contentHash = sha256_hex content,
                      lastUpdated = now w,
                      accessCount = 0,
                      size' = stats_size\<rparr> w) (\<lambda>m w.
         and_then (saveMetadata (w\<lparr>metadata := AList.update filename m (metadata w)\<rparr>)) (\<lambda>_ w.
         ok m w))))))
        (\<lambda>e w. throw e w))"

text \<open>
  \<^verbatim>\<open>retrieve(filename, category = 'system')\<close>. With a record in the \<^verbatim>\<open>Map\<close> the method
  mutates that object and returns the reference to it; without one it returns a new
  object that it stores nowhere.
\<close>

definition retrieve :: "string \<Rightarrow> string \<Rightarrow> world \<Rightarrow> (string \<times> addr) result" where
  "retrieve filename category w =
     (let file = path_join [memoryRoot w, category, filename] in
      try_catch
        (and_then (fs_call (readFile file) w) (\<lambda>content w.
           (case map_of (metadata w) filename of
              Some m \<Rightarrow>
                and_then
                  (saveMetadata
                     (w\<lparr>heap := (heap w)(m := (heap w m)\<lparr>accessCount := accessCount (heap w m) + 1,
                                                         lastUpdated := now w\<rparr>)\<rparr>))
                  (\<lambda>_ w. ok (content, m) w)
            | None \<Rightarrow>
                and_then (new_object
                            \<lparr>filePath = path_relative (memoryRoot w) file,
                             contentHash = sha256_hex content,
                             lastUpdated = now w,
                             accessCount = 1,
                             size' = js_length content\<rparr> w) (\<lambda>m w.
                ok (content, m) w))))
        (\<lambda>e w. if e = FsError ENOENT
                then throw (JsError (''Memory file not found: '' @ filename)) w
                else throw e w))"

text \<open>\<^verbatim>\<open>update(filename, content, category = 'system')\<close>.\<close>

definition update :: "string \<Rightarrow> string \<Rightarrow> string \<Rightarrow> world \<Rightarrow> addr result" where
  "update filename content category w =
     (let file = path_join [memoryRoot w, category, filename] in
      try_catch
        (and_then (fs_call (access file) w) (\<lambda>_ w.
         store filename content category w))
        (\<lambda>e w. if e = FsError ENOENT
                then throw (JsError (''Cannot update non-existent file: '' @ filename)) w
                else throw e w))"

text \<open>
  \<^verbatim>\<open>append(filename, additionalContent, category = 'system')\<close> (the prime keeps the name
  apart from the append of lists).
\<close>

definition append' :: "string \<Rightarrow> string \<Rightarrow> string \<Rightarrow> world \<Rightarrow> addr result" where
  "append' filename additionalContent category w =
     and_then (retrieve filename category w) (\<lambda>r w.
       update filename (fst r @ [CHR 0x0A] @ additionalContent) category w)"

text \<open>\<^verbatim>\<open>remove(filename, category = 'system')\<close>.\<close>

definition remove :: "string \<Rightarrow> string \<Rightarrow> world \<Rightarrow> unit result" where
  "remove filename category w =
     (let file = path_join [memoryRoot w, category, filename] in
      try_catch
        (and_then (fs_call (unlink file) w) (\<lambda>_ w.
         and_then (saveMetadata (w\<lparr>metadata := AList.delete filename (metadata w)\<rparr>)) (\<lambda>_ w.
         ok () w)))
        (\<lambda>e w. if e = FsError ENOENT
                then throw (JsError (''Cannot delete non-existent file: '' @ filename)) w
                else throw e w))"

text \<open>
  \<^verbatim>\<open>list(category?)\<close>. An absent or empty \<^verbatim>\<open>category\<close> is falsy, and the search path is
  then the store root itself. The \<^verbatim>\<open>catch\<close> logs the error and returns \<^verbatim>\<open>[]\<close>.
\<close>

definition list :: "string option \<Rightarrow> world \<Rightarrow> addr list result" where
  "list category w =
     (let searchPath =
            (case category of
               None \<Rightarrow> path_join [memoryRoot w]
             | Some c \<Rightarrow> if c = [] then path_join [memoryRoot w] else path_join [memoryRoot w, c])
      in
      try_catch
        (and_then (fs_call (readdir searchPath) w) (\<lambda>entries w.
           ok (js_sort (\<lambda>a b. int (lastUpdated (heap w b)) - int (lastUpdated (heap w a)))
                 (concat (map (\<lambda>entry.
                    if snd entry \<and> \<not> startsWith_dot (fst entry)
                    then (case map_of (metadata w) (fst entry) of Some m \<Rightarrow> [m] | None \<Rightarrow> [])
                    else []) entries))) w))
        (\<lambda>e w. ok [] w))"

text \<open>\<^verbatim>\<open>getStats()\<close>.\<close>

record Stats =
  totalFiles :: nat
  totalSize :: nat
  categories :: "string list"
  mostAccessed :: "addr list"

definition getStats :: "world \<Rightarrow> Stats result" where
  "getStats w =
     (let allMetadata = map snd (metadata w) in
      ok \<lparr>totalFiles = length allMetadata,
          totalSize = foldl (\<lambda>sum m. sum + size' (heap w m)) 0 allMetadata,
          categories = [''system'', ''personalities'', ''projects''],
          mostAccessed =
            take 10 (js_sort (\<lambda>a b. int (accessCount (heap w b)) - int (accessCount (heap w a)))
                       allMetadata)\<rparr> w)"

text \<open>
  The state right after \<^verbatim>\<open>new FileBackendImpl('/mem')\<close> and \<^verbatim>\<open>initialize()\<close> on an empty
  disk: the root and its three category directories exist, there is no index file and
  the \<^verbatim>\<open>Map\<close> is empty. The clock stands at 2023-11-14T22:13:20.000Z.
\<close>

definition fresh_store :: world where
  "fresh_store =
     \<lparr>memoryRoot = ''/mem'',
      metadata = [],
      heap = (\<lambda>_. \<lparr>filePath = [], contentHash = [], lastUpdated = 0, accessCount = 0, size' = 0\<rparr>),
      next_addr = 0,
      fs = Dir [(''mem'', Dir [(''system'', Dir []), (''personalities'', Dir []), (''projects'', Dir [])])],
      now = 1700000000000,
      fs_errors = []\<rparr>"


text \<open>
  The content of the regular file at \<^verbatim>\<open>root/category/name\<close>, if one is there to be read.
\<close>

definition file_content :: "world \<Rightarrow> string \<Rightarrow> string \<Rightarrow> string option" where
  "file_content w category filename =
     (case readFile (path_join [memoryRoot w, category, filename]) (fs w) of
        Inl c \<Rightarrow> None
      | Inr r \<Rightarrow> Some (fst r))"

text \<open>
  References are never forged: every reference in the \<^verbatim>\<open>Map\<close> is to an object that has
  been allocated.
\<close>

definition refs_allocated :: "world \<Rightarrow> bool" where
  "refs_allocated w = list_all (\<lambda>kv. snd kv < next_addr w) (metadata w)"

text \<open>\<^verbatim>\<open>retrieve(filename, category)\<close> called \<open>n\<close> times in a row.\<close>

fun retrieve_times :: "nat \<Rightarrow> string \<Rightarrow> string \<Rightarrow> world \<Rightarrow> unit result" where
  "retrieve_times 0 filename category w = ok () w"
| "retrieve_times (Suc n) filename category w =
     and_then (retrieve filename category w) (\<lambda>r w. retrieve_times n filename category w)"

subsection \<open>Two tests of the repository, as runs of the model\<close>

text \<open>
  \<^verbatim>\<open>tests/unit/memory-operations.test.ts\<close>, "should sort by most recent first":
  \<^verbatim>\<open>store('old.md', 'Old content')\<close>, a pause of 10 ms, \<^verbatim>\<open>store('new.md', 'New content')\<close>,
  \<^verbatim>\<open>files = list()\<close>. The run returns \<^verbatim>\<open>files\<close> and, next to it, the \<^verbatim>\<open>filePath\<close>s of
  \<^verbatim>\<open>list('system')\<close>.
\<close>

definition test_sort_by_most_recent :: "(addr list \<times> string list) result" where
  "test_sort_by_most_recent =
     and_then (store ''old.md'' ''Old content'' ''system'' fresh_store) (\<lambda>m w.
     and_then (store ''new.md'' ''New content'' ''system'' (w\<lparr>now := now w + 10\<rparr>)) (\<lambda>m w.
     and_then (list None w) (\<lambda>files w.
     and_then (list (Some ''system'') w) (\<lambda>system_files w.
       ok (files, map (\<lambda>m. filePath (heap w m)) system_files) w))))"

text \<open>
  The same file, "should increment access count on each read": \<^verbatim>\<open>store('test.md', ...)\<close>,
  then three calls of \<^verbatim>\<open>retrieve('test.md')\<close>; \<^verbatim>\<open>meta1\<close> is the metadata of the second call
  and \<^verbatim>\<open>meta2\<close> that of the third, and the test expects
  \<^verbatim>\<open>meta2.accessCount > meta1.accessCount\<close>. The run returns the two references, the
  two counts the test compares, and the counts read as each of the three calls returned.
\<close>

definition test_increment_access_count ::
    "((addr \<times> addr) \<times> (nat \<times> nat) \<times> (nat \<times> nat \<times> nat)) result" where
  "test_increment_access_count =
     and_then (store ''test.md'' ''Test content'' ''system'' fresh_store) (\<lambda>m w.
     and_then (retrieve ''test.md'' ''system'' w) (\<lambda>r0 w0.
     and_then (retrieve ''test.md'' ''system'' w0) (\<lambda>r1 w1.
     and_then (retrieve ''test.md'' ''system'' w1) (\<lambda>r2 w2.
       ok ((snd r1, snd r2),
           (accessCount (heap w2 (snd r1)), accessCount (heap w2 (snd r2))),
           (accessCount (heap w0 (snd r0)), accessCount (heap w1 (snd r1)),
            accessCount (heap w2 (snd r2)))) w2))))"

section \<open>Verification\<close>

subsection \<open>Running the model\<close>

text \<open>
  A method body is run on a concrete state call by call: the rules below reduce a
  sequence once its first call has been evaluated, and the congruence rules keep the
  simplifier out of the calls that have not started yet.
\<close>

lemma and_then_Inr: "and_then (Inr x, w) k = k x w"
  by (simp add: and_then_def)

lemma and_then_Inl: "and_then (Inl e, w) k = (Inl e, w)"
  by (simp add: and_then_def)

lemma try_catch_Inr: "try_catch (Inr x, w) h = (Inr x, w)"
  by (simp add: try_catch_def)

lemma try_catch_Inl: "try_catch (Inl e, w) h = h e w"
  by (simp add: try_catch_def)

lemma and_then_cong: "r = r' \<Longrightarrow> and_then r k = and_then r' k"
  by simp

lemma try_catch_cong: "r = r' \<Longrightarrow> try_catch r h = try_catch r' h"
  by simp

lemmas control_simps = and_then_Inr and_then_Inl try_catch_Inr try_catch_Inl ok_def throw_def

lemmas fs_simps = fs_call_def readFile_def writeFile_def access_def stat_size_def unlink_def
  mkdir_recursive_def readdir_def resolve_def is_File_def

lemmas path_simps = path_join_def path_dirname_def path_relative_def metadataFile_def

lemmas run_simps = store_def retrieve_def update_def append'_def remove_def list_def getStats_def
  saveMetadata_def index_of_def new_object_def startsWith_dot_def js_sort_def fresh_store_def Let_def
  control_simps fs_simps path_simps

subsection \<open>Files on the tree\<close>

lemma lookup_write_at: "write_at t p d = Inr t' \<Longrightarrow> lookup t' p = Inr (File d)"
  by (induction t p d arbitrary: t' rule: write_at.induct)
     (auto simp: update_conv' split: option.splits sum.splits if_splits)

lemma lookup_write_at_other:
  "write_at t q d = Inr t' \<Longrightarrow> lookup t p = Inr (File x) \<Longrightarrow> p \<noteq> q
   \<Longrightarrow> lookup t' p = Inr (File x)"
proof (induction t q d arbitrary: t' p rule: write_at.induct)
  case (5 es s ss d)
  then show ?case
    by (cases p) (auto simp: update_conv' split: option.splits sum.splits if_splits)
next
  case (2 old d)
  then show ?case by (cases p) auto
qed auto

lemma write_at_existing: "lookup t p = Inr (File x) \<Longrightarrow> \<exists>t'. write_at t p d = Inr t'"
proof (induction t p rule: lookup.induct)
  case (4 es s ss)
  then obtain n where n: "map_of es s = Some n" "lookup n ss = Inr (File x)"
    by (auto split: option.splits)
  with 4 obtain t' where "write_at n ss d = Inr t'"
    by blast
  with n show ?case
    by simp
qed auto

lemma lookup_not_Fault: "lookup t p \<noteq> Inr (Fault c)"
  by (induction t p rule: lookup.induct) (auto split: option.splits)

lemma metadataFile_no_slash: "\<not> snd (metadataFile w)"
  by (cases "memoryRoot w = []") (simp_all add: metadataFile_def path_join_def Let_def)

lemma mkdir_recursive_Inr:
  "mkdir_recursive p t = Inr (u, t') \<longleftrightarrow> mkdir_p_at t (fst p) = Inr t'"
  by (auto simp: mkdir_recursive_def split: sum.splits)

lemma writeFile_Inr:
  "writeFile p d t = Inr (u, t') \<longleftrightarrow> \<not> snd p \<and> write_at t (fst p) d = Inr t'"
  by (auto simp: writeFile_def split: sum.splits node.splits)

lemma readFile_Inr:
  "readFile p t = Inr (d, t') \<longleftrightarrow> \<not> snd p \<and> lookup t (fst p) = Inr (File d) \<and> t' = t"
  by (auto simp: readFile_def resolve_def split: sum.splits node.splits if_splits)

lemma stat_size_File:
  "lookup t (fst p) = Inr (File d) \<Longrightarrow> \<not> snd p \<Longrightarrow> stat_size p t = Inr (length d, t)"
  by (simp add: stat_size_def resolve_def)


lemma file_content_Some:
  "file_content w category filename = Some d \<longleftrightarrow>
     \<not> snd (path_join [memoryRoot w, category, filename])
     \<and> lookup (fs w) (fst (path_join [memoryRoot w, category, filename])) = Inr (File d)"
  using lookup_not_Fault [of "fs w" "fst (path_join [memoryRoot w, category, filename])"]
  by (auto simp: file_content_def readFile_def resolve_def split: sum.splits node.splits if_splits)

subsection \<open>Results of sequences\<close>

lemma fs_call_Inr:
  "fs_call f w = (Inr x, w') \<longleftrightarrow> (\<exists>t. f (fs w) = Inr (x, t) \<and> w' = w\<lparr>fs := t\<rparr>)"
  by (auto simp: fs_call_def split: sum.splits)

lemma fs_call_Inl:
  "fs_call f w = (Inl e, w') \<longleftrightarrow>
     (\<exists>c. f (fs w) = Inl c \<and> e = FsError c \<and> w' = w\<lparr>fs_errors := fs_errors w @ [c]\<rparr>)"
  by (auto simp: fs_call_def split: sum.splits)

lemma and_then_Inr_iff:
  "and_then r k = (Inr y, w') \<longleftrightarrow> (\<exists>x w1. r = (Inr x, w1) \<and> k x w1 = (Inr y, w'))"
  by (cases r) (auto simp: and_then_def split: sum.splits)

lemma and_then_Inl_iff:
  "and_then r k = (Inl e, w') \<longleftrightarrow>
     r = (Inl e, w') \<or> (\<exists>x w1. r = (Inr x, w1) \<and> k x w1 = (Inl e, w'))"
  by (cases r) (auto simp: and_then_def split: sum.splits)

lemma try_catch_Inr_iff:
  "try_catch r h = (Inr y, w') \<longleftrightarrow>
     r = (Inr y, w') \<or> (\<exists>e w1. r = (Inl e, w1) \<and> h e w1 = (Inr y, w'))"
  by (cases r) (auto simp: try_catch_def split: sum.splits)

lemma try_catch_Inl_iff:
  "try_catch r h = (Inl e', w') \<longleftrightarrow> (\<exists>e w1. r = (Inl e, w1) \<and> h e w1 = (Inl e', w'))"
  by (cases r) (auto simp: try_catch_def split: sum.splits)

lemmas result_iffs = fs_call_Inr fs_call_Inl and_then_Inr_iff and_then_Inl_iff
  try_catch_Inr_iff try_catch_Inl_iff ok_def throw_def new_object_def

subsection \<open>A path that does not exist\<close>















subsection \<open>Store, then retrieve\<close>

text \<open>What a \<^verbatim>\<open>store\<close> that returned has done.\<close>

lemma store_Inr:
  assumes "store filename content category w = (Inr m, w')"
  shows "\<exists>t1 t2.
           mkdir_p_at (fs w) (butlast (fst (path_join [memoryRoot w, category, filename]))) = Inr t1
         \<and> \<not> snd (path_join [memoryRoot w, category, filename])
         \<and> write_at t1 (fst (path_join [memoryRoot w, category, filename])) content = Inr t2
         \<and> write_at t2 (fst (metadataFile w))
              (json_stringify (index_of w')) = Inr (fs w')
         \<and> m = next_addr w
         \<and> w' = w\<lparr>metadata := AList.update filename m (metadata w),
                   heap := (heap w)(m := \<lparr>filePath = path_relative (memoryRoot w)
                                                        (path_join [memoryRoot w, category, filename]),
                                           contentHash = sha256_hex content,
                                           lastUpdated = now w,
                                           accessCount = 0,
                                           size' = length content\<rparr>),
                   next_addr := next_addr w + 1,
                   fs := fs w'\<rparr>"
  using assms
  apply (clarsimp simp: store_def Let_def result_iffs saveMetadata_def
      mkdir_recursive_Inr writeFile_Inr path_dirname_def)
  apply (frule lookup_write_at)
  apply (simp add: stat_size_File metadataFile_def index_of_def cong: if_cong)
  done

text \<open>After it, the file holds the content and the index file exists.\<close>

lemma store_Inr_files:
  assumes "store filename content category w = (Inr m, w')"
  shows "memoryRoot w' = memoryRoot w"
    and "map_of (metadata w') filename = Some m"
    and "heap w' m = \<lparr>filePath = path_relative (memoryRoot w)
                                    (path_join [memoryRoot w, category, filename]),
                       contentHash = sha256_hex content,
                       lastUpdated = now w,
                       accessCount = 0,
                       size' = length content\<rparr>"
    and "\<exists>j. lookup (fs w') (fst (metadataFile w)) = Inr (File j)"
    and "fst (path_join [memoryRoot w, category, filename]) \<noteq> fst (metadataFile w)
         \<Longrightarrow> file_content w' category filename = Some content"
proof -
  let ?p = "path_join [memoryRoot w, category, filename]"
  from store_Inr [OF assms] obtain t1 t2 where
    s: "\<not> snd ?p" "write_at t1 (fst ?p) content = Inr t2"
       "write_at t2 (fst (metadataFile w))
          (json_stringify (index_of w')) = Inr (fs w')"
    and w': "w' = w\<lparr>metadata := AList.update filename m (metadata w),
                   heap := (heap w)(m := \<lparr>filePath = path_relative (memoryRoot w) ?p,
                                           contentHash = sha256_hex content,
                                           lastUpdated = now w,
                                           accessCount = 0,
                                           size' = length content\<rparr>),
                   next_addr := next_addr w + 1,
                   fs := fs w'\<rparr>"
    by blast
  show root: "memoryRoot w' = memoryRoot w"
    by (subst w') simp
  show "map_of (metadata w') filename = Some m"
    by (subst w') (simp add: update_conv')
  show "heap w' m = \<lparr>filePath = path_relative (memoryRoot w) ?p,
                       contentHash = sha256_hex content,
                       lastUpdated = now w,
                       accessCount = 0,
                       size' = length content\<rparr>"
    by (subst w') simp
  show "\<exists>j. lookup (fs w') (fst (metadataFile w)) = Inr (File j)"
    using lookup_write_at [OF s(3)] by blast
  show "file_content w' category filename = Some content"
    if "fst ?p \<noteq> fst (metadataFile w)"
    using lookup_write_at_other [OF s(3) lookup_write_at [OF s(2)] that] s(1) root
    by (simp add: file_content_Some)
qed

lemma saveMetadata_existing:
  assumes "lookup (fs w) (fst (metadataFile w)) = Inr (File j)"
  shows "\<exists>t'. saveMetadata w = (Inr (), w\<lparr>fs := t'\<rparr>)
             \<and> write_at (fs w) (fst (metadataFile w))
                  (json_stringify (index_of w)) = Inr t'"
proof -
  obtain t' where "write_at (fs w) (fst (metadataFile w))
                  (json_stringify (index_of w)) = Inr t'"
    using write_at_existing [OF assms] by blast
  then show ?thesis
    using metadataFile_no_slash [of w]
    by (simp add: saveMetadata_def fs_call_def writeFile_def)
qed

text \<open>
  \<^verbatim>\<open>retrieve\<close> of a file that is on disk and has a record in the \<^verbatim>\<open>Map\<close>, when the index
  file is there to be rewritten: the record's object is mutated and the reference to it
  returned.
\<close>

lemma retrieve_tracked:
  assumes "file_content w category filename = Some c"
      and "map_of (metadata w) filename = Some m"
      and "lookup (fs w) (fst (metadataFile w)) = Inr (File j)"
  shows "\<exists>t'. retrieve filename category w =
           (Inr (c, m),
            w\<lparr>heap := (heap w)(m := (heap w m)\<lparr>accessCount := accessCount (heap w m) + 1,
                                               lastUpdated := now w\<rparr>),
              fs := t'\<rparr>)
         \<and> write_at (fs w) (fst (metadataFile w))
              (json_stringify (index_of
                 (w\<lparr>heap := (heap w)(m := (heap w m)\<lparr>accessCount := accessCount (heap w m) + 1,
                                                    lastUpdated := now w\<rparr>)\<rparr>))) = Inr t'"
proof -
  let ?w1 = "w\<lparr>heap := (heap w)(m := (heap w m)\<lparr>accessCount := accessCount (heap w m) + 1,
                                                  lastUpdated := now w\<rparr>)\<rparr>"
  have "lookup (fs ?w1) (fst (metadataFile ?w1)) = Inr (File j)"
    using assms(3) by (simp add: metadataFile_def)
  from saveMetadata_existing [OF this] obtain t' where
    "saveMetadata ?w1 = (Inr (), ?w1\<lparr>fs := t'\<rparr>)"
    "write_at (fs ?w1) (fst (metadataFile ?w1))
       (json_stringify (index_of ?w1)) = Inr t'"
    by blast
  then show ?thesis
    using assms(1,2)
    by (simp add: retrieve_def Let_def fs_call_def readFile_def resolve_def control_simps
        metadataFile_def file_content_Some)
qed

lemma store_then_retrieve:
  assumes "store filename content category w = (Inr m, w')"
      and "fst (path_join [memoryRoot w, category, filename]) \<noteq> fst (metadataFile w)"
  shows "fst (retrieve filename category (w'\<lparr>now := t\<rparr>)) = Inr (content, m)"
proof -
  note s = store_Inr_files [OF assms(1)]
  obtain j where j: "lookup (fs w') (fst (metadataFile w)) = Inr (File j)"
    using s(4) by blast
  let ?w = "w'\<lparr>now := t\<rparr>"
  have "file_content ?w category filename = Some content"
    using s(5) [OF assms(2)] by (simp add: file_content_def)
  moreover have "map_of (metadata ?w) filename = Some m"
    using s(2) by simp
  moreover have "lookup (fs ?w) (fst (metadataFile ?w)) = Inr (File j)"
    using j s(1) by (simp add: metadataFile_def)
  ultimately show ?thesis
    using retrieve_tracked [of ?w category filename content m j] by auto
qed

text \<open>
  Claim C3, as the code has it. If \<^verbatim>\<open>store(name, content, category)\<close> returns and
  \<^verbatim>\<open>root/category/name\<close> is not the path of the index file, then \<^verbatim>\<open>retrieve(name, category)\<close>,
  at any later time, returns exactly \<^verbatim>\<open>content\<close>, whatever its length (it is what the
  file holds), together with the reference \<^verbatim>\<open>store\<close> returned.
\<close>

theorem store_retrieve_roundtrip:
  assumes "store filename content category w = (Inr m, w')"
      and "fst (path_join [memoryRoot w, category, filename]) \<noteq> fst (metadataFile w)"
  shows "file_content w' category filename = Some content
       \<and> fst (retrieve filename category (w'\<lparr>now := t\<rparr>)) = Inr (content, m)"
proof -
  have "file_content w' category filename = Some content"
    using store_Inr_files(5) [OF assms] .
  moreover have "fst (retrieve filename category (w'\<lparr>now := t\<rparr>)) = Inr (content, m)"
    using assms by (rule store_then_retrieve)
  ultimately show ?thesis ..
qed

theorem store_retrieve_roundtrip_witness:
  "fst (retrieve ''note.md'' ''system''
          (snd (store ''note.md'' ''hello'' ''system'' fresh_store)\<lparr>now := 1700000000500\<rparr>))
   = Inr (''hello'', 0)"
proof -
  have "fst (store ''note.md'' ''hello'' ''system'' fresh_store) = Inr 0"
    by (simp add: run_simps cong: and_then_cong try_catch_cong)
  then have h: "store ''note.md'' ''hello'' ''system'' fresh_store
                = (Inr 0, snd (store ''note.md'' ''hello'' ''system'' fresh_store))"
    by (simp add: prod_eq_iff)
  have d: "fst (path_join [memoryRoot fresh_store, ''system'', ''note.md''])
           \<noteq> fst (metadataFile fresh_store)"
    by (simp add: fresh_store_def path_simps)
  show ?thesis
    using store_retrieve_roundtrip [OF h d] by simp
qed

text \<open>
  Claim C3 as it is written fails where the name and category address the index file
  itself: \<^verbatim>\<open>store\<close> writes the content and then overwrites it with the index, and
  \<^verbatim>\<open>retrieve\<close> returns the index.
\<close>

lemma json_stringify_hd: "hd (json_stringify kvs) = CHR ''{''"
  by (simp add: json_stringify_def)

lemma json_stringify_neq: "hd s \<noteq> CHR ''{'' \<Longrightarrow> json_stringify kvs \<noteq> s"
  using json_stringify_hd by metis

theorem store_retrieve_index_counterexample:
  "fst (and_then (store ''.metadata.json'' ''hello'' [] fresh_store)
          (\<lambda>m w. retrieve ''.metadata.json'' [] w))
   = Inr (json_stringify
            [(''.metadata.json'',
              \<lparr>filePath = ''.metadata.json'', contentHash = sha256_hex ''hello'',
               lastUpdated = 1700000000000, accessCount = 0, size' = length ''hello''\<rparr>)], 0)
   \<and> json_stringify
            [(''.metadata.json'',
              \<lparr>filePath = ''.metadata.json'', contentHash = sha256_hex ''hello'',
               lastUpdated = 1700000000000, accessCount = 0, size' = length ''hello''\<rparr>)] \<noteq> ''hello''"
  by (simp add: run_simps json_stringify_neq cong: and_then_cong try_catch_cong)

subsection \<open>A file without a record\<close>

lemma retrieve_untracked:
  assumes "file_content w category filename = Some c"
      and "map_of (metadata w) filename = None"
  shows "retrieve filename category w =
           (Inr (c, next_addr w),
            w\<lparr>heap := (heap w)(next_addr w :=
                        \<lparr>filePath = path_relative (memoryRoot w)
                                      (path_join [memoryRoot w, category, filename]),
                         contentHash = sha256_hex c,
                         lastUpdated = now w,
                         accessCount = 1,
                         size' = js_length c\<rparr>),
              next_addr := next_addr w + 1\<rparr>)"
  using assms
  by (simp add: retrieve_def Let_def fs_call_def readFile_def resolve_def control_simps
      new_object_def file_content_Some)

lemma index_of_fresh_object:
  "refs_allocated w \<Longrightarrow>
   index_of (w\<lparr>heap := (heap w)(next_addr w := x), next_addr := n\<rparr>) = index_of w"
  by (auto simp: refs_allocated_def index_of_def list_all_iff)

text \<open>
  Claim C9. Let a regular file exist at \<^verbatim>\<open>root/category/name\<close> while the \<^verbatim>\<open>Map\<close> has no
  record under \<^verbatim>\<open>name\<close>. Then \<^verbatim>\<open>retrieve\<close> returns the content with a new metadata object
  (the digest of the content, \<^verbatim>\<open>accessCount\<close> 1); the disk, and so the index file, and the
  in-memory index are exactly as before. A second \<^verbatim>\<open>retrieve\<close>, at any later time, again
  returns a new object with \<^verbatim>\<open>accessCount\<close> 1, and the first object still reads 1.
\<close>

theorem retrieve_without_record:
  assumes "file_content w category filename = Some c"
      and "map_of (metadata w) filename = None"
      and "refs_allocated w"
  shows "fst (retrieve filename category w) = Inr (c, next_addr w)
       \<and> contentHash (heap (snd (retrieve filename category w)) (next_addr w)) = sha256_hex c
       \<and> accessCount (heap (snd (retrieve filename category w)) (next_addr w)) = 1
       \<and> fs (snd (retrieve filename category w)) = fs w
       \<and> metadata (snd (retrieve filename category w)) = metadata w
       \<and> index_of (snd (retrieve filename category w)) = index_of w
       \<and> fst (retrieve filename category (snd (retrieve filename category w)\<lparr>now := t\<rparr>))
           = Inr (c, next_addr w + 1)
       \<and> accessCount (heap (snd (retrieve filename category
                                    (snd (retrieve filename category w)\<lparr>now := t\<rparr>)))
                         (next_addr w + 1)) = 1
       \<and> accessCount (heap (snd (retrieve filename category
                                    (snd (retrieve filename category w)\<lparr>now := t\<rparr>)))
                         (next_addr w)) = 1"
proof -
  let ?m = "\<lparr>filePath = path_relative (memoryRoot w) (path_join [memoryRoot w, category, filename]),
             contentHash = sha256_hex c, lastUpdated = now w, accessCount = 1,
             size' = js_length c\<rparr>"
  let ?w1 = "w\<lparr>heap := (heap w)(next_addr w := ?m), next_addr := next_addr w + 1\<rparr>"
  have r1: "retrieve filename category w = (Inr (c, next_addr w), ?w1)"
    using retrieve_untracked [OF assms(1,2)] .
  have "file_content (?w1\<lparr>now := t\<rparr>) category filename = Some c"
    using assms(1) by (simp add: file_content_def)
  moreover have "map_of (metadata (?w1\<lparr>now := t\<rparr>)) filename = None"
    using assms(2) by simp
  ultimately have r2: "retrieve filename category (?w1\<lparr>now := t\<rparr>) =
      (Inr (c, next_addr w + 1),
       ?w1\<lparr>now := t,
            heap := (heap ?w1)(next_addr w + 1 :=
                      \<lparr>filePath = path_relative (memoryRoot w)
                                    (path_join [memoryRoot w, category, filename]),
                       contentHash = sha256_hex c, lastUpdated = t, accessCount = 1,
                       size' = js_length c\<rparr>),
            next_addr := next_addr w + 2\<rparr>)"
    using retrieve_untracked [of "?w1\<lparr>now := t\<rparr>" category filename c] by simp
  show ?thesis
    unfolding r1 using r2 index_of_fresh_object [OF assms(3)] by simp
qed

text \<open>
  A witness: the same name is stored in two categories and then removed from one of them;
  the other file stays on disk and its name has no record any more.
\<close>

theorem retrieve_without_record_witness:
  "fst (retrieve ''a.md'' ''projects''
          (snd (and_then (store ''a.md'' ''text'' ''projects'' fresh_store) (\<lambda>m w.
                and_then (store ''a.md'' ''other'' ''system'' w) (\<lambda>m w.
                remove ''a.md'' ''system'' w)))))
   = Inr (''text'', 2)"
proof -
  let ?w = "snd (and_then (store ''a.md'' ''text'' ''projects'' fresh_store) (\<lambda>m w.
                 and_then (store ''a.md'' ''other'' ''system'' w) (\<lambda>m w.
                 remove ''a.md'' ''system'' w)))"
  have 1: "file_content ?w ''projects'' ''a.md'' = Some ''text''"
    by (simp add: file_content_def run_simps cong: and_then_cong try_catch_cong)
  have 2: "map_of (metadata ?w) ''a.md'' = None"
    by (simp add: run_simps cong: and_then_cong try_catch_cong)
  have 3: "refs_allocated ?w \<and> next_addr ?w = 2"
    by (simp add: refs_allocated_def run_simps cong: and_then_cong try_catch_cong)
  show ?thesis
    using retrieve_without_record [OF 1 2] 3 by simp
qed

subsection \<open>Update and append\<close>

lemma access_Inr: "access p t = Inr (u, t') \<Longrightarrow> t' = t"
  by (auto simp: access_def split: sum.splits)


lemma update_Inr:
  assumes "update filename content category w = (Inr m, w')"
  shows "store filename content category w = (Inr m, w')"
  using assms
  by (auto simp: update_def Let_def result_iffs dest!: access_Inr split: if_splits)

lemma retrieve_Inr:
  assumes "retrieve filename category w = (Inr r, w1)"
  shows "file_content w category filename = Some (fst r)"
    and "memoryRoot w1 = memoryRoot w"
    and "fst (path_join [memoryRoot w, category, filename]) \<noteq> fst (metadataFile w)
         \<Longrightarrow> file_content w1 category filename = Some (fst r)"
  using assms metadataFile_no_slash [of w]
    apply (auto simp: retrieve_def Let_def result_iffs saveMetadata_def readFile_Inr writeFile_Inr
      file_content_Some metadataFile_def
      split: option.splits if_splits)
  apply (erule (1) lookup_write_at_other)
  apply assumption
  done


text \<open>
  Claim C6, as the code has it. Let the file at \<^verbatim>\<open>root/category/name\<close> hold \<^verbatim>\<open>old\<close>, and
  let its path not be that of the index file. If \<^verbatim>\<open>append(name, extra, category)\<close>
  returns, the file holds \<^verbatim>\<open>old + "\n" + extra\<close>; the metadata returned, which is the
  record now in the \<^verbatim>\<open>Map\<close>, has \<^verbatim>\<open>accessCount\<close> 0 and the digest and byte length of the
  new content; and a following \<^verbatim>\<open>retrieve\<close> returns that content.
\<close>

theorem append_concatenates:
  assumes "file_content w category filename = Some old"
      and "fst (path_join [memoryRoot w, category, filename]) \<noteq> fst (metadataFile w)"
      and "append' filename extra category w = (Inr m, w')"
  shows "file_content w' category filename = Some (old @ [CHR 0x0A] @ extra)
       \<and> map_of (metadata w') filename = Some m
       \<and> accessCount (heap w' m) = 0
       \<and> contentHash (heap w' m) = sha256_hex (old @ [CHR 0x0A] @ extra)
       \<and> size' (heap w' m) = length (old @ [CHR 0x0A] @ extra)
       \<and> fst (retrieve filename category (w'\<lparr>now := t\<rparr>)) = Inr (old @ [CHR 0x0A] @ extra, m)"
proof -
  from assms(3) obtain r w1 where
    r: "retrieve filename category w = (Inr r, w1)"
    and u: "update filename (fst r @ [CHR 0x0A] @ extra) category w1 = (Inr m, w')"
    by (auto simp: append'_def and_then_Inr_iff)
  have old: "fst r = old"
    using retrieve_Inr(1) [OF r] assms(1) by simp
  have root: "memoryRoot w1 = memoryRoot w"
    using retrieve_Inr(2) [OF r] .
  have s: "store filename (old @ [CHR 0x0A] @ extra) category w1 = (Inr m, w')"
    using update_Inr [OF u] old by simp
  have d: "fst (path_join [memoryRoot w1, category, filename]) \<noteq> fst (metadataFile w1)"
    using assms(2) root by (simp add: metadataFile_def)
  show ?thesis
    using store_Inr_files(2,3) [OF s] store_Inr_files(5) [OF s d] store_then_retrieve [OF s d, of t]
    by simp
qed

theorem append_concatenates_witness:
  "fst (retrieve ''n.md'' ''system''
         (snd (append' ''n.md'' ''B'' ''system''
                 (snd (store ''n.md'' ''A'' ''system'' fresh_store)))))
   = Inr (''A'' @ [CHR 0x0A] @ ''B'', 1)"
proof -
  let ?w = "snd (store ''n.md'' ''A'' ''system'' fresh_store)"
  have 1: "file_content ?w ''system'' ''n.md'' = Some ''A''"
    by (simp add: file_content_def run_simps cong: and_then_cong try_catch_cong)
  have 2: "fst (path_join [memoryRoot ?w, ''system'', ''n.md'']) \<noteq> fst (metadataFile ?w)"
    by (simp add: run_simps cong: and_then_cong try_catch_cong)
  have "fst (append' ''n.md'' ''B'' ''system'' ?w) = Inr 1"
    by (simp add: run_simps cong: and_then_cong try_catch_cong)
  then have 3: "append' ''n.md'' ''B'' ''system'' ?w
                = (Inr 1, snd (append' ''n.md'' ''B'' ''system'' ?w))"
    by (simp add: prod_eq_iff)
  have "snd (append' ''n.md'' ''B'' ''system'' ?w)\<lparr>now := now (snd (append' ''n.md'' ''B'' ''system'' ?w))\<rparr>
        = snd (append' ''n.md'' ''B'' ''system'' ?w)"
    by simp
  then show ?thesis
    using append_concatenates [OF 1 2 3, of "now (snd (append' ''n.md'' ''B'' ''system'' ?w))"]
    by simp
qed

text \<open>
  Claim C6 as it is written fails for the same entry as claim C3, the index file: what
  \<^verbatim>\<open>append\<close> writes there is overwritten by the index before \<^verbatim>\<open>append\<close> returns.
\<close>

lemma json_stringify_neq_A: "json_stringify kvs \<noteq> CHR ''A'' # s"
  by (rule json_stringify_neq) simp

theorem append_index_counterexample:
  "(case fst (and_then (store ''.metadata.json'' ''A'' [] fresh_store) (\<lambda>m w.
              and_then (append' ''.metadata.json'' ''B'' [] w) (\<lambda>m w.
              retrieve ''.metadata.json'' [] w))) of
      Inl e \<Rightarrow> False
    | Inr r \<Rightarrow> hd (fst r) = CHR ''{'' \<and> fst r \<noteq> ''A'' @ [CHR 0x0A] @ ''B'')"
  by (simp add: run_simps json_stringify_hd json_stringify_neq_A cong: and_then_cong try_catch_cong)

subsection \<open>Update against store\<close>




subsection \<open>Counting reads\<close>

text \<open>
  With a record in the \<^verbatim>\<open>Map\<close>, each \<^verbatim>\<open>retrieve\<close> that returns adds one to the
  \<^verbatim>\<open>accessCount\<close> of the record's object and returns the reference the \<^verbatim>\<open>Map\<close> holds.
\<close>

lemma retrieve_counts:
  assumes "retrieve filename category w = (Inr r, w')"
      and "map_of (metadata w) filename = Some m"
  shows "snd r = m"
    and "accessCount (heap w' m) = accessCount (heap w m) + 1"
    and "metadata w' = metadata w"
  using assms
  by (auto simp: retrieve_def Let_def result_iffs saveMetadata_def split: if_splits)

text \<open>
  Claim C4, at the input of the repository's test "should increment access count on each
  read". The metadata returned by the second and by the third call are the one object
  the \<^verbatim>\<open>Map\<close> holds (reference 0), so both read 3 and the third is not greater than the
  second. Read at the moment each call returns, the counts are 1, 2 and 3.
\<close>

theorem retrieve_returns_alias:
  "fst test_increment_access_count = Inr ((0, 0), (3, 3), (1, 2, 3))"
  by (simp add: test_increment_access_count_def run_simps cong: and_then_cong try_catch_cong)

subsection \<open>Sorting\<close>

text \<open>
  With a comparator that subtracts keys, \<^verbatim>\<open>sort\<close> is the stable insertion sort of the
  library on the negated key.
\<close>

lemma insert_by_key:
  "insert_by (\<lambda>a b. int (k b) - int (k a)) x ys = insort_key (\<lambda>a. - int (k a)) x ys"
  by (induction ys) auto

lemma js_sort_key:
  "js_sort (\<lambda>a b. int (k b) - int (k a)) xs = sort_key (\<lambda>a. - int (k a)) xs"
  by (induction xs) (simp_all add: js_sort_def insert_by_key)

lemma js_sort_descending:
  "sorted_wrt (\<lambda>a b. k b \<le> k a) (js_sort (\<lambda>a b. int (k b) - int (k a)) xs)"
  using sorted_sort_key [of "\<lambda>a. - int (k a)" xs]
  by (simp add: js_sort_key sorted_map)

lemma foldl_sum: "foldl (\<lambda>s m. s + f m) a xs = a + sum_list (map f xs)"
  by (induction xs arbitrary: a) (simp_all add: add.assoc)

subsection \<open>Listing\<close>


text \<open>
  Claim C2, at the input of the repository's test "should sort by most recent first".
  Both files are in the default category, under \<^verbatim>\<open>root/system\<close>; \<^verbatim>\<open>list()\<close> reads the
  entries of \<^verbatim>\<open>root\<close>, which are three directories and the hidden index file, and returns
  the empty list. \<^verbatim>\<open>list('system')\<close> returns the two records, \<^verbatim>\<open>new.md\<close> first.
\<close>

theorem list_without_category_is_empty:
  "fst test_sort_by_most_recent = Inr ([], [''system/new.md'', ''system/old.md''])"
  by (simp add: test_sort_by_most_recent_def run_simps cong: and_then_cong try_catch_cong)

subsection \<open>Statistics\<close>

text \<open>
  Claim C8. \<^verbatim>\<open>getStats\<close> always returns, changes nothing and reads only the in-memory
  index: \<^verbatim>\<open>totalFiles\<close> is the number of its entries, \<^verbatim>\<open>totalSize\<close> the sum of their \<^verbatim>\<open>size\<close>
  fields, \<^verbatim>\<open>categories\<close> the fixed list, and \<^verbatim>\<open>mostAccessed\<close> the first ten (or all, if
  fewer) of the entries put in descending order of \<^verbatim>\<open>accessCount\<close>, entries with equal
  counts staying in the order the \<^verbatim>\<open>Map\<close> holds them.
\<close>

theorem getStats_reads_index:
  "\<exists>s rest.
      getStats w = (Inr s, w)
    \<and> totalFiles s = length (index_of w)
    \<and> totalSize s = sum_list (map (\<lambda>kv. size' (snd kv)) (index_of w))
    \<and> categories s = [''system'', ''personalities'', ''projects'']
    \<and> length (mostAccessed s) = min 10 (length (index_of w))
    \<and> mset (mostAccessed s @ rest) = mset (map snd (metadata w))
    \<and> sorted_wrt (\<lambda>a b. accessCount (heap w b) \<le> accessCount (heap w a)) (mostAccessed s @ rest)
    \<and> (\<forall>k. filter (\<lambda>m. accessCount (heap w m) = k) (mostAccessed s @ rest)
           = filter (\<lambda>m. accessCount (heap w m) = k) (map snd (metadata w)))"
proof -
  let ?refs = "map snd (metadata w)"
  let ?sorted = "js_sort (\<lambda>a b. int (accessCount (heap w b)) - int (accessCount (heap w a))) ?refs"
  let ?s = "\<lparr>totalFiles = length ?refs,
            totalSize = foldl (\<lambda>sum m. sum + size' (heap w m)) 0 ?refs,
            categories = [''system'', ''personalities'', ''projects''],
            mostAccessed = take 10 ?sorted\<rparr>"
  have key: "?sorted = sort_key (\<lambda>m. - int (accessCount (heap w m))) ?refs"
    by (rule js_sort_key)
  have "getStats w = (Inr ?s, w)"
    by (simp add: getStats_def Let_def ok_def)
  moreover have "totalFiles ?s = length (index_of w)"
    by (simp add: index_of_def)
  moreover have "totalSize ?s = sum_list (map (\<lambda>kv. size' (snd kv)) (index_of w))"
    by (simp add: index_of_def foldl_sum comp_def)
  moreover have "length (mostAccessed ?s) = min 10 (length (index_of w))"
    by (simp add: key index_of_def min.commute)
  moreover have "mset (mostAccessed ?s @ drop 10 ?sorted) = mset ?refs"
    by (simp add: key)
  moreover have "sorted_wrt (\<lambda>a b. accessCount (heap w b) \<le> accessCount (heap w a))
                   (mostAccessed ?s @ drop 10 ?sorted)"
    using js_sort_descending [of "\<lambda>m. accessCount (heap w m)" ?refs] by simp
  moreover have "\<forall>k. filter (\<lambda>m. accessCount (heap w m) = k) (mostAccessed ?s @ drop 10 ?sorted)
                    = filter (\<lambda>m. accessCount (heap w m) = k) ?refs"
  proof
    fix k
    have "filter (\<lambda>m. - int (accessCount (heap w m)) = - int k) ?sorted
          = filter (\<lambda>m. - int (accessCount (heap w m)) = - int k) ?refs"
      unfolding key by (rule sort_key_stable)
    then show "filter (\<lambda>m. accessCount (heap w m) = k) (mostAccessed ?s @ drop 10 ?sorted)
               = filter (\<lambda>m. accessCount (heap w m) = k) ?refs"
      by simp
  qed
  ultimately show ?thesis
    by (intro exI [of _ ?s] exI [of _ "drop 10 ?sorted"]) simp
qed

theorem getStats_reads_index_witness:
  "\<exists>s. getStats fresh_store = (Inr s, fresh_store) \<and> totalFiles s = 0 \<and> totalSize s = 0
       \<and> mostAccessed s = []"
  using getStats_reads_index [of fresh_store]
  by (auto simp: index_of_def fresh_store_def)

subsection \<open>Failures of the file system\<close>


lemma saveMetadata_Inr:
  "saveMetadata w = (Inr u, w') \<Longrightarrow> fs_errors w' = fs_errors w"
  by (auto simp: saveMetadata_def fs_call_Inr)


lemma store_Inr_errors:
  assumes "store filename content category w = (Inr m, w')"
  shows "fs_errors w' = fs_errors w"
  using assms
  by (auto simp: store_def Let_def result_iffs dest!: saveMetadata_Inr)

lemma try_catch_wrap_Inl:
  "try_catch r (\<lambda>e w. if e = FsError ENOENT then throw (JsError msg) w else throw e w)
     = (Inl e', w')
   \<longleftrightarrow> (\<exists>e. r = (Inl e, w') \<and> e' = (if e = FsError ENOENT then JsError msg else e))"
  by (cases r) (auto simp: try_catch_def throw_def split: sum.splits)












subsection \<open>Further properties\<close>

text \<open>
  \<^verbatim>\<open>retrieve\<close> called \<open>n\<close> times in a row on a name that has a record: if the calls return,
  the record is still the same object and its \<^verbatim>\<open>accessCount\<close> has grown by exactly \<open>n\<close>; after
  a \<^verbatim>\<open>store\<close>, which sets it to 0, it is \<open>n\<close>.
\<close>

theorem retrieve_times_counts:
  assumes "retrieve_times n filename category w = (Inr u, w')"
      and "map_of (metadata w) filename = Some m"
  shows "map_of (metadata w') filename = Some m
       \<and> accessCount (heap w' m) = accessCount (heap w m) + n"
  using assms
proof (induction n arbitrary: w)
  case 0
  then show ?case by (simp add: ok_def)
next
  case (Suc n)
  from Suc.prems(1) obtain r w1 where
    r: "retrieve filename category w = (Inr r, w1)"
    and rest: "retrieve_times n filename category w1 = (Inr u, w')"
    by (auto simp: and_then_Inr_iff)
  note c = retrieve_counts [OF r Suc.prems(2)]
  have "map_of (metadata w1) filename = Some m"
    using c(3) Suc.prems(2) by simp
  from Suc.IH [OF rest this] c(2) show ?case
    by simp
qed

theorem retrieve_times_counts_witness:
  "accessCount (heap (snd (retrieve_times 2 ''note.md'' ''system''
                             (snd (store ''note.md'' ''hello'' ''system'' fresh_store)))) 0) = 2"
proof -
  let ?w = "snd (store ''note.md'' ''hello'' ''system'' fresh_store)"
  have "fst (retrieve_times 2 ''note.md'' ''system'' ?w) = Inr ()"
    by (simp add: numeral_2_eq_2 run_simps cong: and_then_cong try_catch_cong)
  then have 1: "retrieve_times 2 ''note.md'' ''system'' ?w
                = (Inr (), snd (retrieve_times 2 ''note.md'' ''system'' ?w))"
    by (simp add: prod_eq_iff)
  have 2: "map_of (metadata ?w) ''note.md'' = Some 0 \<and> accessCount (heap ?w 0) = 0"
    by (simp add: run_simps cong: and_then_cong try_catch_cong)
  show ?thesis
    using retrieve_times_counts [OF 1, of 0] 2 by simp
qed

text \<open>
  \<^verbatim>\<open>list\<close> never rejects. What it returns is in descending order of \<^verbatim>\<open>lastUpdated\<close> and
  holds exactly the records of the entries of the search path that are regular files,
  do not start with a dot and have a record under their name.
\<close>

theorem list_lists_search_path:
  assumes "readdir (case category of
               None \<Rightarrow> path_join [memoryRoot w]
             | Some c \<Rightarrow> if c = [] then path_join [memoryRoot w] else path_join [memoryRoot w, c])
             (fs w) = Inr (entries, t)"
  shows "\<exists>files. list category w = (Inr files, w)
       \<and> sorted_wrt (\<lambda>a b. lastUpdated (heap w b) \<le> lastUpdated (heap w a)) files
       \<and> set files = {m. \<exists>name. (name, True) \<in> set entries \<and> \<not> startsWith_dot name
                              \<and> map_of (metadata w) name = Some m}"
proof -
  let ?p = "case category of
               None \<Rightarrow> path_join [memoryRoot w]
             | Some c \<Rightarrow> if c = [] then path_join [memoryRoot w] else path_join [memoryRoot w, c]"
  let ?found = "concat (map (\<lambda>entry.
                    if snd entry \<and> \<not> startsWith_dot (fst entry)
                    then (case map_of (metadata w) (fst entry) of Some m \<Rightarrow> [m] | None \<Rightarrow> [])
                    else []) entries)"
  let ?files = "js_sort (\<lambda>a b. int (lastUpdated (heap w b)) - int (lastUpdated (heap w a))) ?found"
  have t: "t = fs w"
    using assms by (auto simp: readdir_def split: sum.splits node.splits)
  have "list category w = (Inr ?files, w)"
    using assms t by (simp add: list_def Let_def fs_call_def control_simps)
  moreover have "sorted_wrt (\<lambda>a b. lastUpdated (heap w b) \<le> lastUpdated (heap w a)) ?files"
    by (rule js_sort_descending)
  moreover have "set ?files = {m. \<exists>name. (name, True) \<in> set entries \<and> \<not> startsWith_dot name
                              \<and> map_of (metadata w) name = Some m}"
    by (auto simp: js_sort_key split: if_splits option.splits)
  ultimately show ?thesis
    by blast
qed

theorem list_lists_search_path_witness:
  "\<exists>files. list (Some ''system'') (snd (store ''note.md'' ''hello'' ''system'' fresh_store))
             = (Inr files, snd (store ''note.md'' ''hello'' ''system'' fresh_store))
         \<and> set files = {0}"
proof -
  let ?w = "snd (store ''note.md'' ''hello'' ''system'' fresh_store)"
  have 1: "readdir (case Some ''system'' of
               None \<Rightarrow> path_join [memoryRoot ?w]
             | Some c \<Rightarrow> if c = [] then path_join [memoryRoot ?w] else path_join [memoryRoot ?w, c])
             (fs ?w) = Inr ([(''note.md'', True)], fs ?w)"
    by (simp add: run_simps cong: and_then_cong try_catch_cong)
  have 2: "map_of (metadata ?w) ''note.md'' = Some 0"
    by (simp add: run_simps cong: and_then_cong try_catch_cong)
  from list_lists_search_path [OF 1] obtain files where
    "list (Some ''system'') ?w = (Inr files, ?w)"
    "set files = {m. \<exists>name. (name, True) \<in> set [(''note.md'', True)] \<and> \<not> startsWith_dot name
                              \<and> map_of (metadata ?w) name = Some m}"
    by blast
  moreover have "{m. \<exists>name. (name, True) \<in> set [(''note.md'', True)] \<and> \<not> startsWith_dot name
                              \<and> map_of (metadata ?w) name = Some m} = {0}"
    using 2 by (auto simp: startsWith_dot_def)
  ultimately show ?thesis
    by auto
qed

subsection \<open>References stay allocated\<close>

lemma set_update_subset: "set (AList.update k v al) \<subseteq> insert (k, v) (set al)"
  by (induction al) auto

lemma set_delete_subset: "set (AList.delete k al) \<subseteq> set al"
  by (induction al) auto

lemma saveMetadata_frame:
  "saveMetadata w = (r, w') \<Longrightarrow> metadata w' = metadata w \<and> next_addr w' = next_addr w"
  by (auto simp: saveMetadata_def fs_call_def split: sum.splits)

lemma store_refs:
  assumes "refs_allocated w"
  shows "refs_allocated (snd (store filename content category w))"
proof -
  obtain r w' where s: "store filename content category w = (r, w')"
    by force
  have "refs_allocated w'"
  proof (cases r)
    case (Inl e)
    with s assms show ?thesis
      by (auto simp: store_def Let_def result_iffs refs_allocated_def list_all_iff
          dest!: saveMetadata_frame set_mp [OF set_update_subset]; fastforce)
  next
    case (Inr m)
    with s assms show ?thesis
      by (auto simp: store_def Let_def result_iffs refs_allocated_def list_all_iff
          dest!: saveMetadata_frame set_mp [OF set_update_subset]; fastforce)
  qed
  with s show ?thesis by simp
qed

lemma retrieve_refs:
  assumes "refs_allocated w"
  shows "refs_allocated (snd (retrieve filename category w))"
proof -
  obtain r w' where s: "retrieve filename category w = (r, w')"
    by force
  have "refs_allocated w'"
  proof (cases r)
    case (Inl e)
    with s assms show ?thesis
      unfolding retrieve_def Let_def
      by (auto simp: try_catch_wrap_Inl result_iffs refs_allocated_def list_all_iff
          split: option.splits dest!: saveMetadata_frame; fastforce)
  next
    case (Inr m)
    with s assms show ?thesis
      by (auto simp: retrieve_def Let_def result_iffs refs_allocated_def list_all_iff
          split: option.splits if_splits dest!: saveMetadata_frame; fastforce)
  qed
  with s show ?thesis by simp
qed

lemma remove_refs:
  assumes "refs_allocated w"
  shows "refs_allocated (snd (remove filename category w))"
proof -
  obtain r w' where s: "remove filename category w = (r, w')"
    by force
  have "refs_allocated w'"
  proof (cases r)
    case (Inl e)
    with s assms show ?thesis
      unfolding remove_def Let_def
      by (auto simp: try_catch_wrap_Inl result_iffs refs_allocated_def list_all_iff
          dest!: saveMetadata_frame set_mp [OF set_delete_subset]; fastforce)
  next
    case (Inr m)
    with s assms show ?thesis
      by (auto simp: remove_def Let_def result_iffs refs_allocated_def list_all_iff
          split: if_splits dest!: saveMetadata_frame set_mp [OF set_delete_subset]; fastforce)
  qed
  with s show ?thesis by simp
qed

lemma update_refs:
  assumes "refs_allocated w"
  shows "refs_allocated (snd (update filename content category w))"
proof -
  have a: "fs_call (access (path_join [memoryRoot w, category, filename])) w = (Inr (), w)
         \<or> (\<exists>c. fs_call (access (path_join [memoryRoot w, category, filename])) w
                 = (Inl (FsError c), w\<lparr>fs_errors := fs_errors w @ [c]\<rparr>))"
    by (auto simp: fs_call_def access_def split: sum.splits)
  have b: "refs_allocated (w\<lparr>fs_errors := x\<rparr>)" for x
    using assms by (simp add: refs_allocated_def)
  from a show ?thesis
  proof
    assume "fs_call (access (path_join [memoryRoot w, category, filename])) w = (Inr (), w)"
    then have "snd (update filename content category w) = snd (store filename content category w)"
      by (simp add: update_def Let_def and_then_Inr try_catch_def throw_def split: sum.splits)
    then show ?thesis
      using store_refs [OF assms] by simp
  next
    assume "\<exists>c. fs_call (access (path_join [memoryRoot w, category, filename])) w
                 = (Inl (FsError c), w\<lparr>fs_errors := fs_errors w @ [c]\<rparr>)"
    then show ?thesis
      using b by (auto simp: update_def Let_def and_then_Inl try_catch_Inl throw_def)
  qed
qed

text \<open>
  Every method keeps the references of the \<^verbatim>\<open>Map\<close> allocated, whether it returns or
  rejects; \<^verbatim>\<open>list\<close> and \<^verbatim>\<open>getStats\<close> change neither the \<^verbatim>\<open>Map\<close> nor the heap.
\<close>

theorem refs_allocated_preserved:
  assumes "refs_allocated w"
  shows "refs_allocated (snd (store filename content category w))
       \<and> refs_allocated (snd (retrieve filename category w))
       \<and> refs_allocated (snd (update filename content category w))
       \<and> refs_allocated (snd (append' filename content category w))
       \<and> refs_allocated (snd (remove filename category w))"
proof -
  have "refs_allocated (snd (append' filename content category w))"
  proof (cases "fst (retrieve filename category w)")
    case (Inl e)
    then show ?thesis
      using retrieve_refs [OF assms, of filename category]
      by (simp add: append'_def and_then_def)
  next
    case (Inr r)
    then show ?thesis
      using update_refs [OF retrieve_refs [OF assms, of filename category]]
      by (simp add: append'_def and_then_def)
  qed
  then show ?thesis
    using store_refs [OF assms] retrieve_refs [OF assms] update_refs [OF assms]
      remove_refs [OF assms]
    by simp
qed

theorem refs_allocated_preserved_witness:
  "refs_allocated fresh_store
   \<and> refs_allocated (snd (store ''note.md'' ''hello'' ''system'' fresh_store))"
proof -
  have "refs_allocated fresh_store"
    by (simp add: refs_allocated_def fresh_store_def)
  then show ?thesis
    using refs_allocated_preserved [of fresh_store "''note.md''" "''hello''" "''system''"]
    by simp
qed

end
